theory Spec2Isabelle
  imports Main "HOL-Library.Word"
begin

unbundle bit_operations_syntax

section \<open>SHA-256 as computed by hashlib\<close>

text \<open>
  The program hashes with \<open>hashlib.sha256\<close>: a hasher object is created, fed with
  \<open>update\<close>, and read with \<open>hexdigest\<close>.  The hasher is modelled with the state it
  keeps between updates: the chaining value, the bytes that do not yet fill a block of 64,
  and the number of bytes fed.
\<close>

type_synonym byte = "8 word"
type_synonym bytes = "byte list"
type_synonym w32 = "32 word"

definition Ch :: "w32 \<Rightarrow> w32 \<Rightarrow> w32 \<Rightarrow> w32" where
  "Ch x y z = (x AND y) XOR (NOT x AND z)"

definition Maj :: "w32 \<Rightarrow> w32 \<Rightarrow> w32 \<Rightarrow> w32" where
  "Maj x y z = (x AND y) XOR (x AND z) XOR (y AND z)"

definition big_sigma0 :: "w32 \<Rightarrow> w32" where
  "big_sigma0 x = word_rotr 2 x XOR word_rotr 13 x XOR word_rotr 22 x"

definition big_sigma1 :: "w32 \<Rightarrow> w32" where
  "big_sigma1 x = word_rotr 6 x XOR word_rotr 11 x XOR word_rotr 25 x"

definition small_sigma0 :: "w32 \<Rightarrow> w32" where
  "small_sigma0 x = word_rotr 7 x XOR word_rotr 18 x XOR drop_bit 3 x"

definition small_sigma1 :: "w32 \<Rightarrow> w32" where
  "small_sigma1 x = word_rotr 17 x XOR word_rotr 19 x XOR drop_bit 10 x"

definition sha256_K :: "w32 list" where
  "sha256_K =
    [0x428A2F98, 0x71374491, 0xB5C0FBCF, 0xE9B5DBA5, 0x3956C25B, 0x59F111F1, 0x923F82A4, 0xAB1C5ED5,
     0xD807AA98, 0x12835B01, 0x243185BE, 0x550C7DC3, 0x72BE5D74, 0x80DEB1FE, 0x9BDC06A7, 0xC19BF174,
     0xE49B69C1, 0xEFBE4786, 0x0FC19DC6, 0x240CA1CC, 0x2DE92C6F, 0x4A7484AA, 0x5CB0A9DC, 0x76F988DA,
     0x983E5152, 0xA831C66D, 0xB00327C8, 0xBF597FC7, 0xC6E00BF3, 0xD5A79147, 0x06CA6351, 0x14292967,
     0x27B70A85, 0x2E1B2138, 0x4D2C6DFC, 0x53380D13, 0x650A7354, 0x766A0ABB, 0x81C2C92E, 0x92722C85,
     0xA2BFE8A1, 0xA81A664B, 0xC24B8B70, 0xC76C51A3, 0xD192E819, 0xD6990624, 0xF40E3585, 0x106AA070,
     0x19A4C116, 0x1E376C08, 0x2748774C, 0x34B0BCB5, 0x391C0CB3, 0x4ED8AA4A, 0x5B9CCA4F, 0x682E6FF3,
     0x748F82EE, 0x78A5636F, 0x84C87814, 0x8CC70208, 0x90BEFFFA, 0xA4506CEB, 0xBEF9A3F7, 0xC67178F2]"

definition sha256_H0 :: "w32 list" where
  "sha256_H0 =
    [0x6A09E667, 0xBB67AE85, 0x3C6EF372, 0xA54FF53A, 0x510E527F, 0x9B05688C, 0x1F83D9AB, 0x5BE0CD19]"

fun be_words :: "bytes \<Rightarrow> w32 list" where
  "be_words (b0 # b1 # b2 # b3 # bs) =
     (push_bit 24 (ucast b0) OR push_bit 16 (ucast b1) OR push_bit 8 (ucast b2) OR ucast b3)
       # be_words bs"
| "be_words _ = []"

definition be_bytes :: "w32 \<Rightarrow> bytes" where
  "be_bytes w = [ucast (drop_bit 24 w), ucast (drop_bit 16 w), ucast (drop_bit 8 w), ucast w]"

fun schedule :: "nat \<Rightarrow> w32 list \<Rightarrow> w32 list" where
  "schedule 0 ws = ws"
| "schedule (Suc n) ws =
     (let t = length ws in
      schedule n (ws @ [small_sigma1 (ws ! (t - 2)) + ws ! (t - 7)
                         + small_sigma0 (ws ! (t - 15)) + ws ! (t - 16)]))"

fun round_step :: "w32 list \<Rightarrow> w32 \<times> w32 \<Rightarrow> w32 list" where
  "round_step [a, b, c, d, e, f, g, h] (k, w) =
     (let t1 = h + big_sigma1 e + Ch e f g + k + w;
          t2 = big_sigma0 a + Maj a b c
      in [t1 + t2, a, b, c, d + t1, e, f, g])"
| "round_step v _ = v"

definition compress :: "w32 list \<Rightarrow> bytes \<Rightarrow> w32 list" where
  "compress hs block =
     map2 (+) hs (foldl round_step hs (zip sha256_K (schedule 48 (be_words block))))"

function absorb :: "w32 list \<Rightarrow> bytes \<Rightarrow> w32 list \<times> bytes" where
  "absorb hs bs =
     (if 64 \<le> length bs then absorb (compress hs (take 64 bs)) (drop 64 bs) else (hs, bs))"
  by pat_completeness auto
termination
  by (relation "measure (\<lambda>(hs, bs). length bs)") auto

declare absorb.simps [simp del]

record sha256_state =
  chain :: "w32 list"
  pending :: bytes
  fed :: nat

definition sha256_new :: sha256_state where
  "sha256_new = \<lparr>chain = sha256_H0, pending = [], fed = 0\<rparr>"

definition sha256_update :: "sha256_state \<Rightarrow> bytes \<Rightarrow> sha256_state" where
  "sha256_update st data =
     (let (hs, rest) = absorb (chain st) (pending st @ data)
      in \<lparr>chain = hs, pending = rest, fed = fed st + length data\<rparr>)"

definition length_bytes :: "nat \<Rightarrow> bytes" where
  "length_bytes n =
     (let bits = (of_nat (8 * n) :: 64 word)
      in map (\<lambda>i. ucast (drop_bit (8 * (7 - i)) bits)) [0..<8])"

definition padding :: "nat \<Rightarrow> bytes" where
  "padding n = 0x80 # replicate ((64 - (n + 9) mod 64) mod 64) 0 @ length_bytes n"

definition sha256_digest :: "sha256_state \<Rightarrow> bytes" where
  "sha256_digest st =
     concat (map be_bytes (fst (absorb (chain st) (pending st @ padding (fed st)))))"

definition hex_digit :: "nat \<Rightarrow> char" where
  "hex_digit n = ''0123456789abcdef'' ! n"

definition hex_of_bytes :: "bytes \<Rightarrow> string" where
  "hex_of_bytes bs = concat (map (\<lambda>b. [hex_digit (unat b div 16), hex_digit (unat b mod 16)]) bs)"

definition sha256_hexdigest :: "sha256_state \<Rightarrow> string" where
  "sha256_hexdigest st = hex_of_bytes (sha256_digest st)"

definition sha256 :: "bytes \<Rightarrow> sha256_state" where
  "sha256 data = sha256_update sha256_new data"

section \<open>The program and what surrounds it\<close>

subsection \<open>Python text and errors\<close>

text \<open>
  Exceptions the program can raise or let through.  Text (\<open>str\<close>) is a \<open>string\<close>
  holding its UTF-8 code units; binary data (\<open>bytes\<close>) is a list of 8-bit words.
\<close>

datatype error =
    KeyError string
  | ConnectionError string
  | HTTPError int
  | DecodeError string
  | InvalidTokenError string
  | IntegrityError string
  | OperationalError string
  | IOError string
  | UnicodeDecodeError
  | AttributeError string
  | UnboundLocalError string

definition text_of_bytes :: "bytes \<Rightarrow> string" where
  "text_of_bytes bs = map (\<lambda>b. char_of (unat b)) bs"

definition continuation :: "byte \<Rightarrow> bool" where
  "continuation b \<longleftrightarrow> 0x80 \<le> b \<and> b \<le> 0xBF"

text \<open>
  The second byte of a three-byte and of a four-byte sequence: the lead bytes \<open>E0\<close> and
  \<open>F0\<close> exclude overlong forms, \<open>ED\<close> the surrogates, \<open>F4\<close> what lies beyond U+10FFFF.
\<close>

definition second_of_three :: "byte \<Rightarrow> byte \<Rightarrow> bool" where
  "second_of_three b c =
     (if b = 0xE0 then 0xA0 \<le> c \<and> c \<le> 0xBF
      else if b = 0xED then 0x80 \<le> c \<and> c \<le> 0x9F
      else continuation c)"

definition second_of_four :: "byte \<Rightarrow> byte \<Rightarrow> bool" where
  "second_of_four b c =
     (if b = 0xF0 then 0x90 \<le> c \<and> c \<le> 0xBF
      else if b = 0xF4 then 0x80 \<le> c \<and> c \<le> 0x8F
      else continuation c)"

fun utf8_valid :: "bytes \<Rightarrow> bool" where
  "utf8_valid [] = True"
| "utf8_valid [b] = (b < 0x80)"
| "utf8_valid [b, c] = (if b < 0x80 then utf8_valid [c] else 0xC2 \<le> b \<and> b \<le> 0xDF \<and> continuation c)"
| "utf8_valid [b, c, d] =
     (if b < 0x80 then utf8_valid [c, d]
      else if 0xC2 \<le> b \<and> b \<le> 0xDF then continuation c \<and> utf8_valid [d]
      else 0xE0 \<le> b \<and> b \<le> 0xEF \<and> second_of_three b c \<and> continuation d)"
| "utf8_valid (b # c # d # e # bs) =
     (if b < 0x80 then utf8_valid (c # d # e # bs)
      else if 0xC2 \<le> b \<and> b \<le> 0xDF then continuation c \<and> utf8_valid (d # e # bs)
      else if 0xE0 \<le> b \<and> b \<le> 0xEF then
        second_of_three b c \<and> continuation d \<and> utf8_valid (e # bs)
      else 0xF0 \<le> b \<and> b \<le> 0xF4 \<and> second_of_four b c \<and> continuation d \<and> continuation e
           \<and> utf8_valid bs)"

text \<open>\<open>str(b, 'utf-8')\<close> of Python 3.\<close>

definition str_utf8 :: "bytes \<Rightarrow> error + string" where
  "str_utf8 bs = (if utf8_valid bs then Inr (text_of_bytes bs) else Inl UnicodeDecodeError)"

text \<open>
  \<open>s.encode('utf-8')\<close> on a Python 2 byte string: the string is first decoded with the
  default ASCII codec, which raises on any byte above 127, and then encoded again.
\<close>

definition py2_encode_utf8 :: "bytes \<Rightarrow> error + bytes" where
  "py2_encode_utf8 bs = (if list_all (\<lambda>b. b < 0x80) bs then Inr bs else Inl UnicodeDecodeError)"

fun nat_digits :: "nat \<Rightarrow> string" where
  "nat_digits n =
     (if n < 10 then [hex_digit n] else nat_digits (n div 10) @ [hex_digit (n mod 10)])"

declare nat_digits.simps [simp del]

definition str_of_int :: "int \<Rightarrow> string" where
  "str_of_int i = (if i < 0 then CHR ''-'' # nat_digits (nat (- i)) else nat_digits (nat i))"

text \<open>The \<open>in\<close> operator on strings: \<open>needle in hay\<close>.\<close>

fun is_infix :: "string \<Rightarrow> string \<Rightarrow> bool" where
  "is_infix needle [] = (needle = [])"
| "is_infix needle (c # cs) = (take (length needle) (c # cs) = needle \<or> is_infix needle cs)"

subsection \<open>Files\<close>

text \<open>
  An open binary file: its bytes and the read position.  \<open>f.read(n)\<close> returns at most
  \<open>n\<close> bytes from the position and advances it; \<open>f.read()\<close>, like a negative size,
  returns everything that is left.
\<close>

record file_obj =
  data :: bytes
  pos :: nat

definition f_read :: "file_obj \<Rightarrow> int option \<Rightarrow> bytes \<times> file_obj" where
  "f_read f n =
     (let rest = drop (pos f) (data f);
          got = (case n of
                   None \<Rightarrow> rest
                 | Some k \<Rightarrow> if k < 0 then rest else take (nat k) rest)
      in (got, f\<lparr>pos := pos f + length got\<rparr>))"

definition f_seek :: "file_obj \<Rightarrow> nat \<Rightarrow> file_obj" where
  "f_seek f k = f\<lparr>pos := k\<rparr>"

text \<open>The \<open>while data:\<close> loop of \<open>addFile\<close>.\<close>

function hash_loop :: "sha256_state \<Rightarrow> file_obj \<Rightarrow> int \<Rightarrow> bytes \<Rightarrow> sha256_state \<times> file_obj" where
  "hash_loop sha256_hasher f buffer_size chunk =
     (if chunk \<noteq> [] then
        (let hasher' = sha256_update sha256_hasher chunk;
             (chunk', f') = f_read f (Some buffer_size)
         in hash_loop hasher' f' buffer_size chunk')
      else (sha256_hasher, f))"
  by pat_completeness auto
termination
proof (relation "measure (\<lambda>(h, f, n, chunk). (length (data f) - pos f) + (if chunk = [] then 0 else 1))",
       goal_cases)
  case 1
  show ?case by simp
next
  case (2 h f n chunk hasher' x chunk' f')
  then show ?case
    by (auto simp: f_read_def Let_def split: if_splits)
qed

declare hash_loop.simps [simp del]

text \<open>The hashing pass of \<open>addFile\<close>: the hasher and the file object after it.\<close>

definition hashing_pass :: "file_obj \<Rightarrow> int \<Rightarrow> sha256_state \<times> file_obj" where
  "hashing_pass f buffer_size =
     (let sha256_hasher = sha256_new in
      if buffer_size > 0 then
        (let (chunk, f1) = f_read f (Some buffer_size)
         in hash_loop sha256_hasher f1 buffer_size chunk)
      else
        (let (chunk, f1) = f_read f None
         in (sha256_update sha256_hasher chunk, f1)))"

subsection \<open>The store\<close>

text \<open>
  The three tables of \<open>data.sqlite\<close>.  A row object has no key until the store assigns one:
  the key columns are \<open>None\<close> before the insert.
\<close>

record runs_metadata_row =
  run_id :: "int option"
  rm_url :: string
  UUID :: string
  rm_timestamp :: nat
  body_content :: bytes
  body_SHA256 :: string
  rm_headers :: string

record files_row =
  file_id :: "int option"
  f_run_id :: "int option"
  file_contents :: bytes
  filename :: string
  file_SHA256 :: string
  comments :: "string option"
  f_timestamp :: nat

record child_urls_row =
  url_id :: "int option"
  cu_url :: string
  cu_run_id :: "int option"
  cu_timestamp :: nat

datatype orm_obj =
    RunMetadata runs_metadata_row
  | File files_row
  | ChildURL child_urls_row

fun tablename :: "orm_obj \<Rightarrow> string" where
  "tablename (RunMetadata r) = ''runs_metadata''"
| "tablename (File r) = ''files''"
| "tablename (ChildURL r) = ''child_urls''"

subsection \<open>The world outside the program\<close>

datatype http_method = GET | POST

record request =
  req_method :: http_method
  req_url :: string
  req_headers :: "(string \<times> string) list"

record response =
  status_code :: int
  resp_headers :: "(string \<times> string) list"
  resp_content :: bytes

text \<open>What the program does to the outside, in order: requests sent, inserts attempted, log lines.\<close>

datatype event =
    Request request
  | Insert string
  | Log string string

record world =
  runs_metadata :: "runs_metadata_row list"
  files :: "files_row list"
  child_urls :: "child_urls_row list"
  trace :: "event list"

text \<open>
  What the outside answers during one call: the interpreter's major version, the clock,
  \<open>os.environ\<close>, the network (a response, or the exception \<open>requests\<close> raises),
  \<open>jwt.decode(token, pubkey, algorithms=['RS256'])\<close> (the exception it raises, if any),
  \<open>json.dumps\<close> on the response headers, the local files, and a failure of the store
  that is not of the program's making (locked database, full disk), if any.
\<close>

record env =
  py_major :: int
  now :: nat
  environ :: "string \<rightharpoonup> string"
  network :: "request \<Rightarrow> error + response"
  jwt_decode :: "bytes \<Rightarrow> bytes \<Rightarrow> error option"
  json_dumps :: "(string \<times> string) list \<Rightarrow> string"
  filesystem :: "string \<rightharpoonup> bytes"
  store_fault :: "error option"

definition requests_call :: "env \<Rightarrow> request \<Rightarrow> world \<Rightarrow> (error + response) \<times> world" where
  "requests_call e req w = (network e req, w\<lparr>trace := trace w @ [Request req]\<rparr>)"

text \<open>
  The key SQLite gives a new row of a table with an \<open>INTEGER PRIMARY KEY\<close>: one more than
  the largest key in the table, 1 in an empty table.
\<close>

definition next_id :: "int option list \<Rightarrow> int" where
  "next_id ids = fold (\<lambda>i m. case i of None \<Rightarrow> m | Some k \<Rightarrow> max k m) ids 0 + 1"

definition unique_url_message :: string where
  "unique_url_message = ''(sqlite3.IntegrityError) UNIQUE constraint failed: child_urls.url''"

text \<open>
  \<open>session.add(obj); session.commit()\<close>: one insert in a transaction of its own, which
  gives the key of the new row (the session sets it in the object).  The only constraint
  the schema lets SQLite check on these inserts is \<open>UNIQUE\<close> on \<open>child_urls.url\<close>; a
  failed insert leaves the tables as they were.
\<close>

definition session_add_commit :: "error option \<Rightarrow> orm_obj \<Rightarrow> world \<Rightarrow> (error + int) \<times> world" where
  "session_add_commit fault obj w =
     (case fault of
        Some e \<Rightarrow> (Inl e, w)
      | None \<Rightarrow>
         (case obj of
            RunMetadata r \<Rightarrow>
              (let k = next_id (map run_id (runs_metadata w))
               in (Inr k, w\<lparr>runs_metadata := runs_metadata w @ [r\<lparr>run_id := Some k\<rparr>]\<rparr>))
          | File r \<Rightarrow>
              (let k = next_id (map file_id (files w))
               in (Inr k, w\<lparr>files := files w @ [r\<lparr>file_id := Some k\<rparr>]\<rparr>))
          | ChildURL r \<Rightarrow>
              (if cu_url r \<in> set (map cu_url (child_urls w))
               then (Inl (IntegrityError unique_url_message), w)
               else
                 (let k = next_id (map url_id (child_urls w))
                  in (Inr k, w\<lparr>child_urls := child_urls w @ [r\<lparr>url_id := Some k\<rparr>]\<rparr>)))))"

subsection \<open>The Archiver class\<close>

record archiver =
  url :: string
  headers :: string
  content :: bytes
  content_hash :: string
  run_metadata :: runs_metadata_row

text \<open>\<open>Archiver.__add\<close>.\<close>

definition Archiver_add :: "env \<Rightarrow> orm_obj \<Rightarrow> world \<Rightarrow> (error + int) \<times> world" where
  "Archiver_add e sqlalchemy_obj w =
     session_add_commit (store_fault e) sqlalchemy_obj
       (w\<lparr>trace := trace w @ [Insert (tablename sqlalchemy_obj)]\<rparr>)"

text \<open>
  The version branch of \<open>Archiver.__init__\<close> that sets \<open>content_hash\<close>; under any other
  major version the attribute is never set and building the payload raises.
\<close>

definition body_hash :: "int \<Rightarrow> bytes \<Rightarrow> error + string" where
  "body_hash major body =
     (if major = 2 then
        (case py2_encode_utf8 body of
           Inl e \<Rightarrow> Inl e
         | Inr encoded \<Rightarrow> Inr (sha256_hexdigest (sha256 encoded)))
      else if major = 3 then Inr (sha256_hexdigest (sha256 body))
      else Inl (AttributeError ''content_hash''))"

text \<open>\<open>Archiver.__init__\<close>: the new object, or the exception, and the world after the call.\<close>

definition Archiver_init :: "env \<Rightarrow> string \<Rightarrow> string \<Rightarrow> world \<Rightarrow> (error + archiver) \<times> world" where
  "Archiver_init e u uuid w =
     (let current_time = now e in
      case requests_call e \<lparr>req_method = GET, req_url = u, req_headers = []\<rparr> w of
        (Inl err, w1) \<Rightarrow> (Inl err, w1)
      | (Inr r, w1) \<Rightarrow>
         (let hdrs = json_dumps e (resp_headers r);
              body = resp_content r
          in case body_hash (py_major e) body of
               Inl err \<Rightarrow> (Inl err, w1)
             | Inr digest \<Rightarrow>
                (let payload = \<lparr>run_id = None, rm_url = u, UUID = uuid,
                                 rm_timestamp = current_time, body_content = body,
                                 body_SHA256 = digest, rm_headers = hdrs\<rparr>
                 in case Archiver_add e (RunMetadata payload) w1 of
                      (Inl err, w2) \<Rightarrow> (Inl err, w2)
                    | (Inr k, w2) \<Rightarrow>
                        (Inr \<lparr>url = u, headers = hdrs, content = body, content_hash = digest,
                              run_metadata = payload\<lparr>run_id := Some k\<rparr>\<rparr>, w2))))"

definition jwt_url :: string where
  "jwt_url = ''https://ident.archivers.space/jwt''"

definition publickey_url :: string where
  "publickey_url = ''https://ident.archivers.space/publickey''"

definition session_url :: string where
  "session_url = ''https://ident.archivers.space/session''"

definition missing_key_message :: string where
  "missing_key_message =
     ''Data Together API Key not set. Set the environment variable MORPH_DT_API_KEY ''
     @ ''to your Data Together API Key. For instructions on how to do this in morph.io, see ''
     @ ''https://morph.io/documentation/secret_values''"

text \<open>\<open>Archiver.__getJWT\<close>.\<close>

definition Archiver_getJWT :: "env \<Rightarrow> world \<Rightarrow> (error + bytes) \<times> world" where
  "Archiver_getJWT e w =
     (case environ e ''MORPH_DT_API_KEY'' of
        None \<Rightarrow> (Inl (KeyError missing_key_message), w)
      | Some api_key \<Rightarrow>
         (let h = [(''access_token'', api_key)] in
          case requests_call e \<lparr>req_method = POST, req_url = jwt_url, req_headers = h\<rparr> w of
            (Inl err, w1) \<Rightarrow> (Inl err, w1)
          | (Inr r1, w1) \<Rightarrow>
             (let token = resp_content r1 in
              case requests_call e \<lparr>req_method = GET, req_url = publickey_url, req_headers = []\<rparr> w1 of
                (Inl err, w2) \<Rightarrow> (Inl err, w2)
              | (Inr r2, w2) \<Rightarrow>
                 (let pubkey = resp_content r2 in
                  case jwt_decode e token pubkey of
                    Some (DecodeError m) \<Rightarrow>
                      (Inl (DecodeError m),
                       w2\<lparr>trace := trace w2
                             @ [Log ''error'' ''Could not verify Data Together signature on JWT'']\<rparr>)
                  | Some err \<Rightarrow> (Inl err, w2)
                  | None \<Rightarrow> (Inr token, w2)))))"

text \<open>
  \<open>Archiver.addURL\<close>.  The methods return the outcome, the object and the world, so that
  what they leave alone can be stated.
\<close>

definition addURL :: "env \<Rightarrow> archiver \<Rightarrow> string \<Rightarrow> world \<Rightarrow> (error + unit) \<times> archiver \<times> world" where
  "addURL e self u w =
     (let current_time = now e;
          child_url = \<lparr>url_id = None, cu_url = u, cu_run_id = run_id (run_metadata self),
                       cu_timestamp = current_time\<rparr>
      in case Archiver_add e (ChildURL child_url) w of
           (Inl (IntegrityError msg), w1) \<Rightarrow>
             (if is_infix ''UNIQUE constraint failed'' msg then (Inr (), self, w1)
              else (Inl (IntegrityError msg), self, w1))
         | (Inl err, w1) \<Rightarrow> (Inl err, self, w1)
         | (Inr k, w1) \<Rightarrow> (Inr (), self, w1))"

text \<open>\<open>Archiver.addFile\<close>.\<close>

definition addFile ::
  "env \<Rightarrow> archiver \<Rightarrow> string \<Rightarrow> string option \<Rightarrow> int \<Rightarrow> world \<Rightarrow> (error + unit) \<times> archiver \<times> world" where
  "addFile e self name cmts buffer_size w =
     (let current_time = now e in
      case filesystem e name of
        None \<Rightarrow> (Inl (IOError name), self, w)
      | Some bs \<Rightarrow>
         (let f = \<lparr>data = bs, pos = 0\<rparr>;
              (sha256_hasher, f1) = hashing_pass f buffer_size;
              file_contents_hash = sha256_hexdigest sha256_hasher;
              f2 = f_seek f1 0;
              (contents, f3) = f_read f2 None;
              file_object = \<lparr>file_id = None, f_run_id = run_id (run_metadata self),
                             file_contents = contents, filename = name,
                             file_SHA256 = file_contents_hash, comments = cmts,
                             f_timestamp = current_time\<rparr>
          in case Archiver_add e (File file_object) w of
               (Inl err, w1) \<Rightarrow> (Inl err, self, w1)
             | (Inr k, w1) \<Rightarrow> (Inr (), self, w1)))"

text \<open>\<open>Response.raise_for_status\<close> of requests: it raises for 4xx and 5xx.\<close>

definition raise_for_status :: "response \<Rightarrow> error + unit" where
  "raise_for_status r =
     (if 400 \<le> status_code r \<and> status_code r < 600 then Inl (HTTPError (status_code r))
      else Inr ())"

text \<open>\<open>Archiver.commit\<close>.  Under a major version other than 2 and 3, \<open>token\<close> is never bound.\<close>

definition commit :: "env \<Rightarrow> archiver \<Rightarrow> world \<Rightarrow> (error + unit) \<times> archiver \<times> world" where
  "commit e self w =
     (if py_major e = 2 \<or> py_major e = 3 then
        (case Archiver_getJWT e w of
           (Inl err, w1) \<Rightarrow> (Inl err, self, w1)
         | (Inr jwt, w1) \<Rightarrow>
            (case (if py_major e = 2 then Inr (text_of_bytes jwt) else str_utf8 jwt) of
               Inl err \<Rightarrow> (Inl err, self, w1)
             | Inr token \<Rightarrow>
                (let h = [(''Authorization'', ''Bearer '' @ token)] in
                 case requests_call e \<lparr>req_method = GET, req_url = session_url, req_headers = h\<rparr> w1 of
                   (Inl err, w2) \<Rightarrow> (Inl err, self, w2)
                 | (Inr r, w2) \<Rightarrow>
                    (case raise_for_status r of
                       Inl err \<Rightarrow> (Inl err, self, w2)
                     | Inr u \<Rightarrow>
                        (Inr (), self,
                         w2\<lparr>trace := trace w2
                               @ [Log ''info'' (''server responded with '' @ str_of_int (status_code r))]\<rparr>)))))
      else (Inl (UnboundLocalError ''token''), self, w))"

section \<open>Notions used in the statements\<close>

text \<open>The stored digest of every run row is the digest of its stored body.\<close>

definition digests_consistent :: "world \<Rightarrow> bool" where
  "digests_consistent w =
     list_all (\<lambda>r. body_SHA256 r = sha256_hexdigest (sha256 (body_content r))) (runs_metadata w)"

text \<open>
  Names for the three requests of the completion handshake, for the log line of a failed
  verification, for the text of the token that \<open>commit\<close> puts in the bearer header, and for
  what \<open>commit\<close> does from the report request on.
\<close>

definition verification_log :: "error \<Rightarrow> event list" where
  "verification_log err =
     (case err of
        DecodeError m \<Rightarrow> [Log ''error'' ''Could not verify Data Together signature on JWT'']
      | _ \<Rightarrow> [])"

definition token_request :: "string \<Rightarrow> request" where
  "token_request api_key =
     \<lparr>req_method = POST, req_url = jwt_url, req_headers = [(''access_token'', api_key)]\<rparr>"

definition publickey_request :: request where
  "publickey_request = \<lparr>req_method = GET, req_url = publickey_url, req_headers = []\<rparr>"

definition report_request :: "string \<Rightarrow> request" where
  "report_request token =
     \<lparr>req_method = GET, req_url = session_url, req_headers = [(''Authorization'', ''Bearer '' @ token)]\<rparr>"

definition bearer_text :: "int \<Rightarrow> bytes \<Rightarrow> error + string" where
  "bearer_text major jwt = (if major = 2 then Inr (text_of_bytes jwt) else str_utf8 jwt)"

definition report_outcome :: "env \<Rightarrow> archiver \<Rightarrow> string \<Rightarrow> world \<Rightarrow> (error + unit) \<times> archiver \<times> world" where
  "report_outcome e self token w1 =
     (case network e (report_request token) of
        Inl err \<Rightarrow> (Inl err, self, w1\<lparr>trace := trace w1 @ [Request (report_request token)]\<rparr>)
      | Inr r \<Rightarrow>
         (if 400 \<le> status_code r \<and> status_code r < 600
          then (Inl (HTTPError (status_code r)), self,
                w1\<lparr>trace := trace w1 @ [Request (report_request token)]\<rparr>)
          else (Inr (), self,
                w1\<lparr>trace := trace w1 @ [Request (report_request token),
                    Log ''info'' (''server responded with '' @ str_of_int (status_code r))]\<rparr>)))"

section \<open>A concrete run, for evaluation\<close>

text \<open>
  An empty store; a Python 3 process with the API key set, a network that answers every
  request with status 200 and the body \<open>hello\<close>, a token that verifies, and a local file
  \<open>out.csv\<close> holding the four bytes \<open>data\<close>; the run object of a fetch of
  \<open>https://example.org/a\<close>, and a store that holds its row and one child URL.  Then the
  same process with a locked database, with a token that does not verify, without the API
  key, and with a report endpoint that answers 300.
\<close>

definition example_world :: world where
  "example_world = \<lparr>runs_metadata = [], files = [], child_urls = [], trace = []\<rparr>"

definition example_response :: response where
  "example_response = \<lparr>status_code = 200, resp_headers = [], resp_content = [0x68, 0x65, 0x6C, 0x6C, 0x6F]\<rparr>"

definition example_env :: env where
  "example_env =
     \<lparr>py_major = 3, now = 0, environ = [''MORPH_DT_API_KEY'' \<mapsto> ''secret''],
      network = (\<lambda>r. Inr example_response),
      jwt_decode = (\<lambda>token pubkey. None), json_dumps = (\<lambda>hs. ''{}''),
      filesystem = [''out.csv'' \<mapsto> [0x64, 0x61, 0x74, 0x61]], store_fault = None\<rparr>"

definition example_archiver :: archiver where
  "example_archiver =
     \<lparr>url = ''https://example.org/a'', headers = ''{}'', content = [0x68, 0x65, 0x6C, 0x6C, 0x6F],
      content_hash = sha256_hexdigest (sha256 [0x68, 0x65, 0x6C, 0x6C, 0x6F]),
      run_metadata =
        \<lparr>run_id = Some 1, rm_url = ''https://example.org/a'', UUID = ''uuid'', rm_timestamp = 0,
         body_content = [0x68, 0x65, 0x6C, 0x6C, 0x6F],
         body_SHA256 = sha256_hexdigest (sha256 [0x68, 0x65, 0x6C, 0x6C, 0x6F]),
         rm_headers = ''{}''\<rparr>\<rparr>"

definition example_file :: file_obj where
  "example_file = \<lparr>data = [0x64, 0x61, 0x74, 0x61], pos = 0\<rparr>"

definition example_url :: string where
  "example_url = ''https://example.org/a''"

definition example_env_locked :: env where
  "example_env_locked = example_env\<lparr>store_fault := Some (OperationalError ''database is locked'')\<rparr>"

definition example_child_url :: string where
  "example_child_url = ''https://example.org/b''"

definition example_world_with_child :: world where
  "example_world_with_child =
     \<lparr>runs_metadata = [run_metadata example_archiver], files = [],
      child_urls = [\<lparr>url_id = Some 1, cu_url = example_child_url, cu_run_id = Some 1, cu_timestamp = 0\<rparr>],
      trace = []\<rparr>"

definition example_env_forged :: env where
  "example_env_forged =
     example_env\<lparr>jwt_decode := (\<lambda>token pubkey. Some (DecodeError ''Signature verification failed''))\<rparr>"

definition example_env_no_key :: env where
  "example_env_no_key = example_env\<lparr>environ := Map.empty\<rparr>"

definition example_env_300 :: env where
  "example_env_300 =
     example_env\<lparr>network := (\<lambda>req. if req_url req = session_url
                                       then Inr (example_response\<lparr>status_code := 300\<rparr>)
                                       else Inr example_response)\<rparr>"




section \<open>Feeding a hasher in pieces\<close>

lemma absorb_short: "length bs < 64 \<Longrightarrow> absorb hs bs = (hs, bs)"
  by (subst absorb.simps) simp

lemma absorb_append:
  "absorb hs (xs @ ys) = (case absorb hs xs of (hs', rest) \<Rightarrow> absorb hs' (rest @ ys))"
proof (induction hs xs rule: absorb.induct)
  case (1 hs bs)
  show ?case
  proof (cases "64 \<le> length bs")
    case True
    then have "absorb hs (bs @ ys) = absorb (compress hs (take 64 bs)) (drop 64 bs @ ys)"
      by (subst absorb.simps) simp
    also have "\<dots> = (case absorb (compress hs (take 64 bs)) (drop 64 bs) of
                        (hs', rest) \<Rightarrow> absorb hs' (rest @ ys))"
      using "1.IH" [OF True] .
    also have "absorb (compress hs (take 64 bs)) (drop 64 bs) = absorb hs bs"
      using True by (subst (2) absorb.simps) simp
    finally show ?thesis .
  next
    case False
    then show ?thesis by (simp add: absorb_short)
  qed
qed

lemma sha256_update_append:
  "sha256_update (sha256_update st xs) ys = sha256_update st (xs @ ys)"
proof -
  obtain hs rest where a: "absorb (chain st) (pending st @ xs) = (hs, rest)"
    by (cases "absorb (chain st) (pending st @ xs)")
  have "absorb (chain st) ((pending st @ xs) @ ys) = absorb hs (rest @ ys)"
    by (simp only: absorb_append [of _ "pending st @ xs"] a split)
  then show ?thesis
    by (simp add: sha256_update_def a add.assoc)
qed

lemma sha256_update_new_Nil: "sha256_update sha256_new [] = sha256_new"
  by (simp add: sha256_update_def sha256_new_def absorb_short)

text \<open>
  The model computes SHA-256: the digest of the five bytes \<open>hello\<close> is the one hashlib
  gives.
\<close>

lemma sha256_hello:
  "sha256_hexdigest (sha256 [0x68, 0x65, 0x6C, 0x6C, 0x6F])
     = ''2cf24dba5fb0a30e26e83b2ac5b9e29e1b161e5c1fa7425e73043362938b9824''"
  by code_simp

lemma hash_loop_feeds_rest:
  assumes "0 < n" and "chunk = [] \<longrightarrow> drop (pos f) (data f) = []"
  shows "hash_loop h f n chunk =
           (if chunk = [] then (h, f)
            else (sha256_update h (chunk @ drop (pos f) (data f)),
                  f\<lparr>pos := pos f + length (drop (pos f) (data f))\<rparr>))"
  using assms
proof (induction h f n chunk rule: hash_loop.induct)
  case (1 h f n chunk)
  show ?case
  proof (cases "chunk = []")
    case True
    then show ?thesis by (subst hash_loop.simps) simp
  next
    case False
    let ?rest = "drop (pos f) (data f)"
    let ?c = "take (nat n) ?rest"
    let ?f = "f\<lparr>pos := pos f + length ?c\<rparr>"
    have rd: "f_read f (Some n) = (?c, ?f)"
      using "1.prems"(1) by (simp add: f_read_def Let_def)
    have step: "hash_loop h f n chunk = hash_loop (sha256_update h chunk) ?f n ?c"
      using False by (subst hash_loop.simps) (simp add: rd)
    have rest': "drop (pos ?f) (data ?f) = drop (nat n) ?rest"
      by (simp add: add.commute min_def)
    have pre: "?c = [] \<longrightarrow> drop (pos ?f) (data ?f) = []"
      using "1.prems"(1) by (auto simp: rest')
    have ih: "hash_loop (sha256_update h chunk) ?f n ?c =
           (if ?c = [] then (sha256_update h chunk, ?f)
            else (sha256_update (sha256_update h chunk) (?c @ drop (pos ?f) (data ?f)),
                  ?f\<lparr>pos := pos ?f + length (drop (pos ?f) (data ?f))\<rparr>))"
      using "1.IH" [OF False refl refl rd [symmetric] "1.prems"(1) pre] .
    show ?thesis
    proof (cases "?c = []")
      case True
      then have "?rest = []" using "1.prems"(1) by auto
      then show ?thesis using False step ih by simp
    next
      case c: False
      have eq: "?c @ drop (pos ?f) (data ?f) = ?rest"
        unfolding rest' by (rule append_take_drop_id)
      have upd: "sha256_update (sha256_update h chunk) (?c @ drop (pos ?f) (data ?f))
                   = sha256_update h (chunk @ ?rest)"
        by (simp only: sha256_update_append eq)
      have "length (?c @ drop (pos ?f) (data ?f)) = length ?rest"
        by (simp only: eq)
      then have fl: "?f\<lparr>pos := pos ?f + length (drop (pos ?f) (data ?f))\<rparr>
                       = f\<lparr>pos := pos f + length ?rest\<rparr>"
        by simp
      show ?thesis
        unfolding step ih upd fl using False c by simp
    qed
  qed
qed

text \<open>
  Whatever the buffer size, the hashing pass leaves the hasher in the state of one update
  with everything from the read position on, and the file at its end.
\<close>

lemma hashing_pass_whole:
  "hashing_pass f n =
     (sha256 (drop (pos f) (data f)), f\<lparr>pos := pos f + length (drop (pos f) (data f))\<rparr>)"
proof (cases "0 < n")
  case True
  let ?rest = "drop (pos f) (data f)"
  let ?c = "take (nat n) ?rest"
  let ?f = "f\<lparr>pos := pos f + length ?c\<rparr>"
  have rd: "f_read f (Some n) = (?c, ?f)"
    using True by (simp add: f_read_def Let_def)
  have pre: "?c = [] \<longrightarrow> drop (pos ?f) (data ?f) = []"
    using True by auto
  have loop: "hash_loop sha256_new ?f n ?c =
      (if ?c = [] then (sha256_new, ?f)
       else (sha256_update sha256_new (?c @ drop (pos ?f) (data ?f)),
             ?f\<lparr>pos := pos ?f + length (drop (pos ?f) (data ?f))\<rparr>))"
    by (rule hash_loop_feeds_rest [OF True pre])
  have rest': "drop (pos ?f) (data ?f) = drop (nat n) ?rest"
    by (simp add: add.commute min_def)
  have eq: "?c @ drop (pos ?f) (data ?f) = ?rest"
    unfolding rest' by (rule append_take_drop_id)
  have "length (?c @ drop (pos ?f) (data ?f)) = length ?rest"
    by (simp only: eq)
  then have fl: "?f\<lparr>pos := pos ?f + length (drop (pos ?f) (data ?f))\<rparr>
                   = f\<lparr>pos := pos f + length ?rest\<rparr>"
    by simp
  have hp: "hashing_pass f n = hash_loop sha256_new ?f n ?c"
    using True by (simp add: hashing_pass_def rd)
  show ?thesis
  proof (cases "?c = []")
    case c: True
    then have "?rest = []" using True by auto
    then show ?thesis
      unfolding hp loop by (simp add: sha256_def sha256_update_new_Nil)
  next
    case c: False
    show ?thesis
      unfolding hp loop eq fl using c by (simp add: sha256_def)
  qed
next
  case False
  then show ?thesis
    by (simp add: hashing_pass_def f_read_def sha256_def)
qed

text \<open>
  C1.  For every byte sequence \<open>B\<close> and every chunk size \<open>c \<ge> 1\<close>, and for the
  whole-buffer mode of chunk size 0, the hex digest that the hashing loop of \<open>addFile\<close>
  computes over a file holding \<open>B\<close> is the digest of \<open>B\<close> fed to a fresh hasher in a
  single update; the hasher ends in the same state as with chunk size 0.
\<close>

theorem chunked_digest_eq_whole_digest:
  assumes "0 \<le> c"
  shows "sha256_hexdigest (fst (hashing_pass \<lparr>data = B, pos = 0\<rparr> c)) = sha256_hexdigest (sha256 B)
       \<and> fst (hashing_pass \<lparr>data = B, pos = 0\<rparr> c) = fst (hashing_pass \<lparr>data = B, pos = 0\<rparr> 0)"
  by (simp add: hashing_pass_whole)

theorem chunked_digest_eq_whole_digest_witness:
  "(0::int) \<le> 2
   \<and> sha256_hexdigest (fst (hashing_pass \<lparr>data = [0x64, 0x61, 0x74, 0x61], pos = 0\<rparr> 2))
       = sha256_hexdigest (sha256 [0x64, 0x61, 0x74, 0x61])
   \<and> fst (hashing_pass \<lparr>data = [0x64, 0x61, 0x74, 0x61], pos = 0\<rparr> 2)
       = fst (hashing_pass \<lparr>data = [0x64, 0x61, 0x74, 0x61], pos = 0\<rparr> 0)"
proof -
  have h: "(0::int) \<le> 2" by simp
  from chunked_digest_eq_whole_digest [OF h, of "[0x64, 0x61, 0x74, 0x61]"] h
  show ?thesis by blast
qed

text \<open>
  C9.  For every negative \<open>buffer_size\<close>, as for 0, \<open>addFile\<close> takes the whole-file
  branch: the hashing pass is one \<open>read()\<close> and one update, and the call as a whole does
  what it does with \<open>buffer_size = 0\<close>, so the digest is the same.
\<close>

theorem nonpositive_buffer_size_reads_whole_file:
  assumes "buffer_size \<le> 0"
  shows "hashing_pass f buffer_size =
           (let (chunk, f1) = f_read f None in (sha256_update sha256_new chunk, f1))
       \<and> hashing_pass f buffer_size = hashing_pass f 0
       \<and> addFile e self name cmts buffer_size w = addFile e self name cmts 0 w"
proof -
  have whole: "hashing_pass g buffer_size = hashing_pass g 0" for g
    using assms by (simp add: hashing_pass_def)
  have "addFile e self name cmts buffer_size w = addFile e self name cmts 0 w"
    by (simp add: addFile_def whole Let_def split: option.splits)
  moreover have "hashing_pass f buffer_size =
           (let (chunk, f1) = f_read f None in (sha256_update sha256_new chunk, f1))"
    using assms by (simp add: hashing_pass_def)
  ultimately show ?thesis
    using whole by simp
qed

theorem nonpositive_buffer_size_reads_whole_file_witness:
  "(- 1 :: int) \<le> 0
   \<and> hashing_pass example_file (- 1) =
           (let (chunk, f1) = f_read example_file None in (sha256_update sha256_new chunk, f1))
   \<and> hashing_pass example_file (- 1) = hashing_pass example_file 0
   \<and> addFile example_env example_archiver ''out.csv'' None (- 1) example_world
       = addFile example_env example_archiver ''out.csv'' None 0 example_world"
proof -
  have h: "(- 1 :: int) \<le> 0" by simp
  from nonpositive_buffer_size_reads_whole_file
         [OF h, of example_file example_env example_archiver "''out.csv''" None example_world] h
  show ?thesis by blast
qed

section \<open>Recording a file\<close>

lemma Archiver_add_File:
  "Archiver_add e (File r) w =
     (case store_fault e of
        Some err \<Rightarrow> (Inl err, w\<lparr>trace := trace w @ [Insert ''files'']\<rparr>)
      | None \<Rightarrow>
         (Inr (next_id (map file_id (files w))),
          w\<lparr>trace := trace w @ [Insert ''files''],
            files := files w @ [r\<lparr>file_id := Some (next_id (map file_id (files w)))\<rparr>]\<rparr>))"
  by (simp add: Archiver_add_def session_add_commit_def Let_def split: option.splits)

lemma addFile_unfold:
  "addFile e self name cmts n w =
     (case filesystem e name of
        None \<Rightarrow> (Inl (IOError name), self, w)
      | Some bs \<Rightarrow>
         (case Archiver_add e
                 (File \<lparr>file_id = None, f_run_id = run_id (run_metadata self), file_contents = bs,
                         filename = name, file_SHA256 = sha256_hexdigest (sha256 bs),
                         comments = cmts, f_timestamp = now e\<rparr>) w of
            (Inl err, w1) \<Rightarrow> (Inl err, self, w1)
          | (Inr k, w1) \<Rightarrow> (Inr (), self, w1)))"
  by (simp add: addFile_def hashing_pass_whole f_seek_def f_read_def Let_def
           split: option.splits)

text \<open>
  C7.  When \<open>addFile\<close> returns normally, the hashing pass has left the hasher in the state
  of one update with the bytes of the file, the storage pass after \<open>seek(0)\<close> reads the
  same bytes, and the row added to \<open>files\<close> holds them with \<open>file_SHA256\<close> equal to the
  SHA-256 hex digest of its \<open>file_contents\<close>.
\<close>

theorem addFile_hashes_what_it_stores:
  assumes "fst (addFile e self name cmts buffer_size w) = Inr ()"
  shows "\<exists>bs row.
           filesystem e name = Some bs
         \<and> fst (hashing_pass \<lparr>data = bs, pos = 0\<rparr> buffer_size) = sha256 bs
         \<and> fst (f_read (f_seek (snd (hashing_pass \<lparr>data = bs, pos = 0\<rparr> buffer_size)) 0) None) = bs
         \<and> files (snd (snd (addFile e self name cmts buffer_size w))) = files w @ [row]
         \<and> file_contents row = bs
         \<and> file_SHA256 row = sha256_hexdigest (sha256 (file_contents row))"
proof (cases "filesystem e name")
  case None
  with assms show ?thesis by (simp add: addFile_unfold)
next
  case (Some bs)
  show ?thesis
  proof (cases "store_fault e")
    case None
    with Some show ?thesis
      by (simp add: addFile_unfold Archiver_add_File hashing_pass_whole f_seek_def f_read_def)
  next
    case (Some err)
    with \<open>filesystem e name = Some bs\<close> assms show ?thesis
      by (simp add: addFile_unfold Archiver_add_File)
  qed
qed

theorem addFile_hashes_what_it_stores_witness:
  "fst (addFile example_env example_archiver ''out.csv'' None 2 example_world) = Inr ()
   \<and> (\<exists>bs row.
           filesystem example_env ''out.csv'' = Some bs
         \<and> fst (hashing_pass \<lparr>data = bs, pos = 0\<rparr> 2) = sha256 bs
         \<and> fst (f_read (f_seek (snd (hashing_pass \<lparr>data = bs, pos = 0\<rparr> 2)) 0) None) = bs
         \<and> files (snd (snd (addFile example_env example_archiver ''out.csv'' None 2 example_world)))
             = files example_world @ [row]
         \<and> file_contents row = bs
         \<and> file_SHA256 row = sha256_hexdigest (sha256 (file_contents row)))"
proof -
  have h: "fst (addFile example_env example_archiver ''out.csv'' None 2 example_world) = Inr ()"
    by (simp add: addFile_unfold Archiver_add_File example_env_def)
  from addFile_hashes_what_it_stores [OF h] h show ?thesis by blast
qed

section \<open>Constructing a run\<close>

lemma body_hash_Inr:
  assumes "body_hash major body = Inr d"
  shows "d = sha256_hexdigest (sha256 body)"
  using assms
  by (auto simp: body_hash_def py2_encode_utf8_def split: if_splits sum.splits)

lemma Archiver_add_RunMetadata:
  "Archiver_add e (RunMetadata r) w =
     (case store_fault e of
        Some err \<Rightarrow> (Inl err, w\<lparr>trace := trace w @ [Insert ''runs_metadata'']\<rparr>)
      | None \<Rightarrow>
         (Inr (next_id (map run_id (runs_metadata w))),
          w\<lparr>trace := trace w @ [Insert ''runs_metadata''],
            runs_metadata :=
              runs_metadata w @ [r\<lparr>run_id := Some (next_id (map run_id (runs_metadata w)))\<rparr>]\<rparr>))"
  by (simp add: Archiver_add_def session_add_commit_def Let_def split: option.splits)

lemma Archiver_init_unfold:
  "Archiver_init e u uuid w =
     (case network e \<lparr>req_method = GET, req_url = u, req_headers = []\<rparr> of
        Inl err \<Rightarrow>
          (Inl err, w\<lparr>trace := trace w @ [Request \<lparr>req_method = GET, req_url = u, req_headers = []\<rparr>]\<rparr>)
      | Inr r \<Rightarrow>
         (case body_hash (py_major e) (resp_content r) of
            Inl err \<Rightarrow>
              (Inl err, w\<lparr>trace := trace w @ [Request \<lparr>req_method = GET, req_url = u, req_headers = []\<rparr>]\<rparr>)
          | Inr digest \<Rightarrow>
             (case store_fault e of
                Some err \<Rightarrow>
                  (Inl err,
                   w\<lparr>trace := trace w @ [Request \<lparr>req_method = GET, req_url = u, req_headers = []\<rparr>,
                                          Insert ''runs_metadata'']\<rparr>)
              | None \<Rightarrow>
                  (Inr \<lparr>url = u, headers = json_dumps e (resp_headers r), content = resp_content r,
                        content_hash = digest,
                        run_metadata =
                          \<lparr>run_id = Some (next_id (map run_id (runs_metadata w))), rm_url = u,
                           UUID = uuid, rm_timestamp = now e, body_content = resp_content r,
                           body_SHA256 = digest, rm_headers = json_dumps e (resp_headers r)\<rparr>\<rparr>,
                   w\<lparr>trace := trace w @ [Request \<lparr>req_method = GET, req_url = u, req_headers = []\<rparr>,
                                          Insert ''runs_metadata''],
                     runs_metadata := runs_metadata w @
                       [\<lparr>run_id = Some (next_id (map run_id (runs_metadata w))), rm_url = u,
                         UUID = uuid, rm_timestamp = now e, body_content = resp_content r,
                         body_SHA256 = digest, rm_headers = json_dumps e (resp_headers r)\<rparr>]\<rparr>))))"
  by (simp add: Archiver_init_def requests_call_def Archiver_add_RunMetadata Let_def
           split: sum.splits option.splits)

text \<open>
  C2.  When the constructor returns, the row it has added to \<open>runs_metadata\<close> is the
  object's \<open>run_metadata\<close>; its \<open>body_content\<close> is the fetched body and its
  \<open>body_SHA256\<close> is the SHA-256 hex digest of that \<open>body_content\<close>.  If every row of the
  table had this property before the call, every row has it after.
\<close>

theorem stored_digest_is_digest_of_stored_body:
  assumes "fst (Archiver_init e u uuid w) = Inr a"
  shows "runs_metadata (snd (Archiver_init e u uuid w)) = runs_metadata w @ [run_metadata a]
       \<and> body_content (run_metadata a) = content a
       \<and> body_SHA256 (run_metadata a) = sha256_hexdigest (sha256 (body_content (run_metadata a)))
       \<and> (digests_consistent w \<longrightarrow> digests_consistent (snd (Archiver_init e u uuid w)))"
  using assms
  by (auto simp: Archiver_init_unfold digests_consistent_def
           split: sum.splits option.splits dest: body_hash_Inr)

theorem stored_digest_is_digest_of_stored_body_witness:
  "fst (Archiver_init example_env example_url ''uuid'' example_world) = Inr example_archiver
   \<and> runs_metadata (snd (Archiver_init example_env example_url ''uuid'' example_world))
       = runs_metadata example_world @ [run_metadata example_archiver]
   \<and> body_content (run_metadata example_archiver) = content example_archiver
   \<and> body_SHA256 (run_metadata example_archiver)
       = sha256_hexdigest (sha256 (body_content (run_metadata example_archiver)))
   \<and> digests_consistent example_world
   \<and> digests_consistent (snd (Archiver_init example_env example_url ''uuid'' example_world))"
proof -
  have h: "fst (Archiver_init example_env example_url ''uuid'' example_world) = Inr example_archiver"
    by (simp add: Archiver_init_unfold example_env_def example_response_def body_hash_def
          example_archiver_def example_world_def example_url_def next_id_def)
  have c: "digests_consistent example_world"
    by (simp add: digests_consistent_def example_world_def)
  from stored_digest_is_digest_of_stored_body [OF h] h c show ?thesis by blast
qed

section \<open>Keys, and what the methods leave alone\<close>

lemma fold_max_id_ge: "m \<le> fold (\<lambda>i m. case i of None \<Rightarrow> m | Some k \<Rightarrow> max k m) ids (m::int)"
proof (induction ids arbitrary: m)
  case Nil
  show ?case by simp
next
  case (Cons i ids)
  show ?case
  proof (cases i)
    case None
    then show ?thesis using Cons.IH [of m] by simp
  next
    case (Some k)
    have "m \<le> max k m" by simp
    also have "\<dots> \<le> fold (\<lambda>i m. case i of None \<Rightarrow> m | Some k \<Rightarrow> max k m) ids (max k m)"
      by (rule Cons.IH)
    finally show ?thesis using Some by simp
  qed
qed

lemma fold_max_id_member:
  "Some k \<in> set ids \<Longrightarrow> k \<le> fold (\<lambda>i m. case i of None \<Rightarrow> m | Some k \<Rightarrow> max k m) ids (m::int)"
proof (induction ids arbitrary: m)
  case Nil
  then show ?case by simp
next
  case (Cons i ids)
  show ?case
  proof (cases "i = Some k")
    case True
    have "k \<le> max k m" by simp
    also have "\<dots> \<le> fold (\<lambda>i m. case i of None \<Rightarrow> m | Some k \<Rightarrow> max k m) ids (max k m)"
      by (rule fold_max_id_ge)
    finally show ?thesis using True by simp
  next
    case False
    with Cons.prems have "Some k \<in> set ids" by simp
    then show ?thesis
      using Cons.IH by (cases i) simp_all
  qed
qed

lemma next_id_fresh: "Some (next_id ids) \<notin> set ids"
proof
  assume "Some (next_id ids) \<in> set ids"
  then have "next_id ids \<le> fold (\<lambda>i m. case i of None \<Rightarrow> m | Some k \<Rightarrow> max k m) ids 0"
    by (rule fold_max_id_member)
  then show False by (simp add: next_id_def)
qed

lemma Archiver_add_ChildURL:
  "Archiver_add e (ChildURL r) w =
     (case store_fault e of
        Some err \<Rightarrow> (Inl err, w\<lparr>trace := trace w @ [Insert ''child_urls'']\<rparr>)
      | None \<Rightarrow>
         (if cu_url r \<in> set (map cu_url (child_urls w))
          then (Inl (IntegrityError unique_url_message), w\<lparr>trace := trace w @ [Insert ''child_urls'']\<rparr>)
          else
            (Inr (next_id (map url_id (child_urls w))),
             w\<lparr>trace := trace w @ [Insert ''child_urls''],
               child_urls :=
                 child_urls w @ [r\<lparr>url_id := Some (next_id (map url_id (child_urls w)))\<rparr>]\<rparr>)))"
  by (simp add: Archiver_add_def session_add_commit_def Let_def split: option.splits)

lemma addURL_frame:
  "fst (snd (addURL e a u w)) = a
   \<and> runs_metadata (snd (snd (addURL e a u w))) = runs_metadata w
   \<and> files (snd (snd (addURL e a u w))) = files w"
  by (simp add: addURL_def Archiver_add_ChildURL Let_def split: option.splits error.splits)

lemma addFile_frame:
  "fst (snd (addFile e a name cmts n w)) = a
   \<and> runs_metadata (snd (snd (addFile e a name cmts n w))) = runs_metadata w
   \<and> child_urls (snd (snd (addFile e a name cmts n w))) = child_urls w"
  by (simp add: addFile_unfold Archiver_add_File split: option.splits)

lemma jwt_decode_outcome:
  "(case v of
      Some (DecodeError m) \<Rightarrow>
        (Inl (DecodeError m),
         w\<lparr>trace := trace w @ [Log ''error'' ''Could not verify Data Together signature on JWT'']\<rparr>)
    | Some err \<Rightarrow> (Inl err, w)
    | None \<Rightarrow> (Inr token, w))
   = (case v of
        None \<Rightarrow> (Inr token, w)
      | Some err \<Rightarrow> (Inl err, w\<lparr>trace := trace w @ verification_log err\<rparr>))"
proof (cases v)
  case None
  then show ?thesis by simp
next
  case (Some err)
  then show ?thesis by (cases err) (simp_all add: verification_log_def)
qed

lemma Archiver_getJWT_unfold:
  "Archiver_getJWT e w =
     (case environ e ''MORPH_DT_API_KEY'' of
        None \<Rightarrow> (Inl (KeyError missing_key_message), w)
      | Some api_key \<Rightarrow>
         (case network e (token_request api_key) of
            Inl err \<Rightarrow> (Inl err, w\<lparr>trace := trace w @ [Request (token_request api_key)]\<rparr>)
          | Inr r1 \<Rightarrow>
             (case network e publickey_request of
                Inl err \<Rightarrow>
                  (Inl err,
                   w\<lparr>trace := trace w @ [Request (token_request api_key), Request publickey_request]\<rparr>)
              | Inr r2 \<Rightarrow>
                 (case jwt_decode e (resp_content r1) (resp_content r2) of
                    None \<Rightarrow>
                      (Inr (resp_content r1),
                       w\<lparr>trace := trace w @ [Request (token_request api_key), Request publickey_request]\<rparr>)
                  | Some err \<Rightarrow>
                      (Inl err,
                       w\<lparr>trace := trace w @ [Request (token_request api_key), Request publickey_request]
                                          @ verification_log err\<rparr>)))))"
  unfolding Archiver_getJWT_def Let_def jwt_decode_outcome
  by (simp add: requests_call_def token_request_def publickey_request_def
           split: option.splits sum.splits)

lemma Archiver_getJWT_world:
  "\<exists>evs. snd (Archiver_getJWT e w) = w\<lparr>trace := trace w @ evs\<rparr>"
proof -
  have w: "w = w\<lparr>trace := trace w @ []\<rparr>" by simp
  show ?thesis
    unfolding Archiver_getJWT_unfold
    by (auto split: option.splits sum.splits intro: exI [of _ "[]"])
qed

lemma commit_after_token:
  assumes "py_major e = 2 \<or> py_major e = 3"
    and "Archiver_getJWT e w = (Inr jwt, w1)"
    and "bearer_text (py_major e) jwt = Inr token"
  shows "commit e self w = report_outcome e self token w1"
proof (cases "network e (report_request token)")
  case (Inl err)
  then show ?thesis
    using assms
    by (simp add: commit_def bearer_text_def requests_call_def report_outcome_def
          report_request_def)
next
  case (Inr r)
  then show ?thesis
    using assms
    by (simp add: commit_def bearer_text_def requests_call_def report_outcome_def
          report_request_def raise_for_status_def)
qed

lemma commit_token_failure:
  assumes "py_major e = 2 \<or> py_major e = 3"
    and "Archiver_getJWT e w = (Inl err, w1)"
  shows "commit e self w = (Inl err, self, w1)"
  using assms by (simp add: commit_def)

lemma commit_text_failure:
  assumes "py_major e = 2 \<or> py_major e = 3"
    and "Archiver_getJWT e w = (Inr jwt, w1)"
    and "bearer_text (py_major e) jwt = Inl err"
  shows "commit e self w = (Inl err, self, w1)"
  using assms by (simp add: commit_def bearer_text_def)

lemma commit_frame:
  "fst (snd (commit e a w)) = a
   \<and> (\<exists>evs. snd (snd (commit e a w)) = w\<lparr>trace := trace w @ evs\<rparr>)"
proof (cases "py_major e = 2 \<or> py_major e = 3")
  case False
  then have "snd (snd (commit e a w)) = w\<lparr>trace := trace w @ []\<rparr>"
    and "fst (snd (commit e a w)) = a"
    by (simp_all add: commit_def)
  then show ?thesis by blast
next
  case True
  obtain res w1 where g: "Archiver_getJWT e w = (res, w1)"
    by (cases "Archiver_getJWT e w")
  obtain evs where "snd (Archiver_getJWT e w) = w\<lparr>trace := trace w @ evs\<rparr>"
    using Archiver_getJWT_world by blast
  with g have w1: "w1 = w\<lparr>trace := trace w @ evs\<rparr>" by simp
  show ?thesis
  proof (cases res)
    case (Inl err)
    with g True have "commit e a w = (Inl err, a, w1)"
      by (simp add: commit_token_failure)
    with w1 show ?thesis by auto
  next
    case (Inr jwt)
    show ?thesis
    proof (cases "bearer_text (py_major e) jwt")
      case (Inl err)
      with g True Inr have "commit e a w = (Inl err, a, w1)"
        by (simp add: commit_text_failure)
      with w1 show ?thesis by auto
    next
      case tok: (Inr token)
      with g True Inr have c: "commit e a w = report_outcome e a token w1"
        by (simp add: commit_after_token)
      have "fst (snd (report_outcome e a token w1)) = a"
        by (simp add: report_outcome_def split: sum.splits)
      moreover have "\<exists>evs'. snd (snd (report_outcome e a token w1)) = w\<lparr>trace := trace w @ evs @ evs'\<rparr>"
        by (auto simp: report_outcome_def w1 split: sum.splits)
      ultimately show ?thesis unfolding c by blast
    qed
  qed
qed

text \<open>
  C8.  A constructor call that returns has made exactly one insert: the world after it is
  the world before with the fetch and one insert into \<open>runs_metadata\<close> on the trace and the
  object's row appended to the table; the row's \<open>run_id\<close> is set, to a key no earlier row
  has, \<open>content_hash\<close> is the digest of the body and \<open>headers\<close> is set.  When the store
  fails on the insert, the constructor raises that error after the one attempt, with no
  row added.  \<open>addURL\<close>, \<open>addFile\<close> and \<open>commit\<close> return the object as they got it
  and leave \<open>runs_metadata\<close> as it was.
\<close>

theorem run_row_inserted_once_then_kept:
  "(fst (Archiver_init e u uuid w) = Inr a \<longrightarrow>
       run_id (run_metadata a) = Some (next_id (map run_id (runs_metadata w)))
     \<and> run_id (run_metadata a) \<notin> set (map run_id (runs_metadata w))
     \<and> content_hash a = sha256_hexdigest (sha256 (content a))
     \<and> body_SHA256 (run_metadata a) = content_hash a
     \<and> rm_headers (run_metadata a) = headers a
     \<and> snd (Archiver_init e u uuid w) =
         w\<lparr>trace := trace w @ [Request \<lparr>req_method = GET, req_url = u, req_headers = []\<rparr>,
                                 Insert ''runs_metadata''],
           runs_metadata := runs_metadata w @ [run_metadata a]\<rparr>)
   \<and> (network e' \<lparr>req_method = GET, req_url = u', req_headers = []\<rparr> = Inr r
        \<and> body_hash (py_major e') (resp_content r) = Inr d \<and> store_fault e' = Some err \<longrightarrow>
       Archiver_init e' u' uuid' w' =
         (Inl err,
          w'\<lparr>trace := trace w' @ [Request \<lparr>req_method = GET, req_url = u', req_headers = []\<rparr>,
                                   Insert ''runs_metadata'']\<rparr>))
   \<and> (\<forall>e2 w2 cu name cmts n.
         fst (snd (addURL e2 a cu w2)) = a
       \<and> runs_metadata (snd (snd (addURL e2 a cu w2))) = runs_metadata w2
       \<and> fst (snd (addFile e2 a name cmts n w2)) = a
       \<and> runs_metadata (snd (snd (addFile e2 a name cmts n w2))) = runs_metadata w2
       \<and> fst (snd (commit e2 a w2)) = a
       \<and> runs_metadata (snd (snd (commit e2 a w2))) = runs_metadata w2)"
proof (intro conjI impI allI)
  assume ok: "fst (Archiver_init e u uuid w) = Inr a"
  then obtain r digest where
    r: "network e \<lparr>req_method = GET, req_url = u, req_headers = []\<rparr> = Inr r" and
    d: "body_hash (py_major e) (resp_content r) = Inr digest" and
    f: "store_fault e = None"
    by (auto simp: Archiver_init_unfold split: sum.splits option.splits)
  have dg: "digest = sha256_hexdigest (sha256 (resp_content r))"
    using d by (rule body_hash_Inr)
  have a: "a = \<lparr>url = u, headers = json_dumps e (resp_headers r), content = resp_content r,
                 content_hash = digest,
                 run_metadata =
                   \<lparr>run_id = Some (next_id (map run_id (runs_metadata w))), rm_url = u,
                    UUID = uuid, rm_timestamp = now e, body_content = resp_content r,
                    body_SHA256 = digest, rm_headers = json_dumps e (resp_headers r)\<rparr>\<rparr>"
    using ok by (simp add: Archiver_init_unfold r d f)
  show "run_id (run_metadata a) = Some (next_id (map run_id (runs_metadata w)))"
    by (simp add: a)
  then show "run_id (run_metadata a) \<notin> set (map run_id (runs_metadata w))"
    by (simp only: next_id_fresh not_False_eq_True)
  show "content_hash a = sha256_hexdigest (sha256 (content a))"
    by (simp add: a dg)
  show "body_SHA256 (run_metadata a) = content_hash a"
    by (simp add: a)
  show "rm_headers (run_metadata a) = headers a"
    by (simp add: a)
  show "snd (Archiver_init e u uuid w) =
         w\<lparr>trace := trace w @ [Request \<lparr>req_method = GET, req_url = u, req_headers = []\<rparr>,
                                 Insert ''runs_metadata''],
           runs_metadata := runs_metadata w @ [run_metadata a]\<rparr>"
    by (simp add: Archiver_init_unfold r d f a)
next
  assume "network e' \<lparr>req_method = GET, req_url = u', req_headers = []\<rparr> = Inr r
        \<and> body_hash (py_major e') (resp_content r) = Inr d \<and> store_fault e' = Some err"
  then show "Archiver_init e' u' uuid' w' =
         (Inl err,
          w'\<lparr>trace := trace w' @ [Request \<lparr>req_method = GET, req_url = u', req_headers = []\<rparr>,
                                   Insert ''runs_metadata'']\<rparr>)"
    by (simp add: Archiver_init_unfold)
next
  fix e2 w2 cu
  show "fst (snd (addURL e2 a cu w2)) = a"
    and "runs_metadata (snd (snd (addURL e2 a cu w2))) = runs_metadata w2"
    by (simp_all add: addURL_frame)
next
  fix e2 w2 name cmts n
  show "fst (snd (addFile e2 a name cmts n w2)) = a"
    and "runs_metadata (snd (snd (addFile e2 a name cmts n w2))) = runs_metadata w2"
    by (simp_all add: addFile_frame)
next
  fix e2 w2
  obtain evs where "snd (snd (commit e2 a w2)) = w2\<lparr>trace := trace w2 @ evs\<rparr>"
    using commit_frame by blast
  then show "runs_metadata (snd (snd (commit e2 a w2))) = runs_metadata w2"
    by simp
  show "fst (snd (commit e2 a w2)) = a"
    by (simp add: commit_frame)
qed

theorem run_row_inserted_once_then_kept_witness:
  "fst (Archiver_init example_env example_url ''uuid'' example_world) = Inr example_archiver
   \<and> run_id (run_metadata example_archiver) = Some (next_id (map run_id (runs_metadata example_world)))
   \<and> content_hash example_archiver = sha256_hexdigest (sha256 (content example_archiver))
   \<and> snd (Archiver_init example_env example_url ''uuid'' example_world) =
         example_world\<lparr>trace := trace example_world
                                  @ [Request \<lparr>req_method = GET, req_url = example_url, req_headers = []\<rparr>,
                                     Insert ''runs_metadata''],
           runs_metadata := runs_metadata example_world @ [run_metadata example_archiver]\<rparr>
   \<and> network example_env_locked \<lparr>req_method = GET, req_url = example_url, req_headers = []\<rparr>
         = Inr example_response
   \<and> body_hash (py_major example_env_locked) (resp_content example_response)
         = Inr (content_hash example_archiver)
   \<and> store_fault example_env_locked = Some (OperationalError ''database is locked'')
   \<and> Archiver_init example_env_locked example_url ''uuid'' example_world =
         (Inl (OperationalError ''database is locked''),
          example_world\<lparr>trace := trace example_world
                                   @ [Request \<lparr>req_method = GET, req_url = example_url, req_headers = []\<rparr>,
                                      Insert ''runs_metadata'']\<rparr>)
   \<and> fst (snd (commit example_env example_archiver example_world)) = example_archiver"
proof -
  have h1: "fst (Archiver_init example_env example_url ''uuid'' example_world) = Inr example_archiver"
    by (simp add: Archiver_init_unfold example_env_def example_response_def body_hash_def
          example_archiver_def example_world_def example_url_def next_id_def)
  have h2: "network example_env_locked \<lparr>req_method = GET, req_url = example_url, req_headers = []\<rparr>
              = Inr example_response
            \<and> body_hash (py_major example_env_locked) (resp_content example_response)
              = Inr (content_hash example_archiver)
            \<and> store_fault example_env_locked = Some (OperationalError ''database is locked'')"
    by (simp add: example_env_locked_def example_env_def example_response_def body_hash_def
          example_archiver_def)
  note t = run_row_inserted_once_then_kept
             [where e = example_env and u = example_url and uuid = "''uuid''" and w = example_world
                and a = example_archiver and e' = example_env_locked and u' = example_url
                and uuid' = "''uuid''" and w' = example_world and r = example_response
                and d = "content_hash example_archiver"
                and err = "OperationalError ''database is locked''"]
  from t h1 have p1:
    "run_id (run_metadata example_archiver) = Some (next_id (map run_id (runs_metadata example_world)))
     \<and> content_hash example_archiver = sha256_hexdigest (sha256 (content example_archiver))
     \<and> snd (Archiver_init example_env example_url ''uuid'' example_world) =
         example_world\<lparr>trace := trace example_world
                                  @ [Request \<lparr>req_method = GET, req_url = example_url, req_headers = []\<rparr>,
                                     Insert ''runs_metadata''],
           runs_metadata := runs_metadata example_world @ [run_metadata example_archiver]\<rparr>"
    by blast
  from t h2 have p2:
    "Archiver_init example_env_locked example_url ''uuid'' example_world =
         (Inl (OperationalError ''database is locked''),
          example_world\<lparr>trace := trace example_world
                                   @ [Request \<lparr>req_method = GET, req_url = example_url, req_headers = []\<rparr>,
                                      Insert ''runs_metadata'']\<rparr>)"
    by blast
  from t have p3: "fst (snd (commit example_env example_archiver example_world)) = example_archiver"
    by blast
  from h1 h2 p1 p2 p3 show ?thesis by blast
qed

section \<open>Recording a child URL\<close>

lemma unique_url_message_recognised: "is_infix ''UNIQUE constraint failed'' unique_url_message"
  by (simp add: unique_url_message_def)

lemma addURL_unfold:
  "addURL e self u w =
     (case store_fault e of
        Some err \<Rightarrow>
          (case err of
             IntegrityError msg \<Rightarrow>
               if is_infix ''UNIQUE constraint failed'' msg then Inr () else Inl err
           | _ \<Rightarrow> Inl err,
           self, w\<lparr>trace := trace w @ [Insert ''child_urls'']\<rparr>)
      | None \<Rightarrow>
          (if u \<in> set (map cu_url (child_urls w))
           then (Inr (), self, w\<lparr>trace := trace w @ [Insert ''child_urls'']\<rparr>)
           else (Inr (), self,
                 w\<lparr>trace := trace w @ [Insert ''child_urls''],
                   child_urls := child_urls w @
                     [\<lparr>url_id = Some (next_id (map url_id (child_urls w))), cu_url = u,
                       cu_run_id = run_id (run_metadata self), cu_timestamp = now e\<rparr>]\<rparr>)))"
proof (cases "store_fault e")
  case None
  then show ?thesis
    by (simp add: addURL_def Archiver_add_ChildURL unique_url_message_recognised)
next
  case (Some err)
  then show ?thesis
    by (cases err) (simp_all add: addURL_def Archiver_add_ChildURL)
qed








text \<open>
  C10.  When the URL is already in \<open>child_urls\<close>, \<open>addURL\<close> leaves the object and all
  three tables as they were, whatever the store answers, and returns normally when the
  store works.  So the first writer wins: after a first \<open>addURL\<close> that inserts the URL and
  a second one for the same URL, by any object at any time, the table is the old table with
  the one row of the first call, carrying its \<open>run_id\<close> and its timestamp.
\<close>

theorem duplicate_addURL_changes_no_table:
  "(u \<in> set (map cu_url (child_urls w)) \<longrightarrow>
       fst (snd (addURL e self u w)) = self
     \<and> child_urls (snd (snd (addURL e self u w))) = child_urls w
     \<and> runs_metadata (snd (snd (addURL e self u w))) = runs_metadata w
     \<and> files (snd (snd (addURL e self u w))) = files w
     \<and> (store_fault e = None \<longrightarrow> fst (addURL e self u w) = Inr ()))
   \<and> (u' \<notin> set (map cu_url (child_urls w')) \<and> store_fault ea = None \<longrightarrow>
       child_urls (snd (snd (addURL eb second u' (snd (snd (addURL ea first u' w'))))))
         = child_urls w' @
             [\<lparr>url_id = Some (next_id (map url_id (child_urls w'))), cu_url = u',
               cu_run_id = run_id (run_metadata first), cu_timestamp = now ea\<rparr>])"
proof (intro conjI impI)
  assume h: "u \<in> set (map cu_url (child_urls w))"
  show "fst (snd (addURL e self u w)) = self"
    and "runs_metadata (snd (snd (addURL e self u w))) = runs_metadata w"
    and "files (snd (snd (addURL e self u w))) = files w"
    by (simp_all add: addURL_frame)
  from h show "child_urls (snd (snd (addURL e self u w))) = child_urls w"
    by (simp add: addURL_unfold split: option.splits)
  assume "store_fault e = None"
  with h show "fst (addURL e self u w) = Inr ()"
    by (simp add: addURL_unfold)
next
  assume h: "u' \<notin> set (map cu_url (child_urls w')) \<and> store_fault ea = None"
  let ?row = "\<lparr>url_id = Some (next_id (map url_id (child_urls w'))), cu_url = u',
               cu_run_id = run_id (run_metadata first), cu_timestamp = now ea\<rparr>"
  let ?w1 = "snd (snd (addURL ea first u' w'))"
  from h have first: "child_urls ?w1 = child_urls w' @ [?row]"
    by (simp add: addURL_unfold)
  then have "u' \<in> set (map cu_url (child_urls ?w1))"
    by simp
  then have "child_urls (snd (snd (addURL eb second u' ?w1))) = child_urls ?w1"
    by (simp add: addURL_unfold split: option.splits)
  with first show "child_urls (snd (snd (addURL eb second u' ?w1))) = child_urls w' @ [?row]"
    by simp
qed

theorem duplicate_addURL_changes_no_table_witness:
  "example_child_url \<in> set (map cu_url (child_urls example_world_with_child))
   \<and> store_fault example_env = None
   \<and> fst (addURL example_env example_archiver example_child_url example_world_with_child) = Inr ()
   \<and> child_urls (snd (snd (addURL example_env example_archiver example_child_url example_world_with_child)))
       = child_urls example_world_with_child
   \<and> example_child_url \<notin> set (map cu_url (child_urls example_world))
   \<and> child_urls (snd (snd (addURL example_env_locked example_archiver example_child_url
         (snd (snd (addURL example_env example_archiver example_child_url example_world))))))
       = child_urls example_world @
           [\<lparr>url_id = Some (next_id (map url_id (child_urls example_world))),
             cu_url = example_child_url, cu_run_id = run_id (run_metadata example_archiver),
             cu_timestamp = now example_env\<rparr>]"
proof -
  have h1: "example_child_url \<in> set (map cu_url (child_urls example_world_with_child))"
    by (simp add: example_world_with_child_def)
  have h2: "store_fault example_env = None"
    by (simp add: example_env_def)
  have h3: "example_child_url \<notin> set (map cu_url (child_urls example_world))
            \<and> store_fault example_env = None"
    by (simp add: example_world_def example_env_def)
  note t = duplicate_addURL_changes_no_table
             [where u = example_child_url and w = example_world_with_child and e = example_env
                and self = example_archiver and u' = example_child_url and w' = example_world
                and ea = example_env and first = example_archiver
                and eb = example_env_locked and second = example_archiver]
  from t h1 h2 have p1:
    "fst (addURL example_env example_archiver example_child_url example_world_with_child) = Inr ()
     \<and> child_urls (snd (snd (addURL example_env example_archiver example_child_url
                                example_world_with_child)))
         = child_urls example_world_with_child"
    by blast
  from t h3 have p2:
    "child_urls (snd (snd (addURL example_env_locked example_archiver example_child_url
         (snd (snd (addURL example_env example_archiver example_child_url example_world))))))
       = child_urls example_world @
           [\<lparr>url_id = Some (next_id (map url_id (child_urls example_world))),
             cu_url = example_child_url, cu_run_id = run_id (run_metadata example_archiver),
             cu_timestamp = now example_env\<rparr>]"
    by blast
  from h1 h2 h3 p1 p2 show ?thesis by blast
qed

section \<open>The completion handshake\<close>

text \<open>
  C5.  When \<open>MORPH_DT_API_KEY\<close> is not in the environment, \<open>__getJWT\<close> raises the
  \<open>KeyError\<close> with the world untouched, and \<open>commit\<close> fails with the world as it was:
  no request has been sent.  Under Python 2 and 3 the error of \<open>commit\<close> is that
  \<open>KeyError\<close>.
\<close>

theorem missing_key_fails_before_any_request:
  assumes "environ e ''MORPH_DT_API_KEY'' = None"
  shows "Archiver_getJWT e w = (Inl (KeyError missing_key_message), w)
       \<and> (\<exists>err. fst (commit e self w) = Inl err)
       \<and> (py_major e = 2 \<or> py_major e = 3 \<longrightarrow>
            fst (commit e self w) = Inl (KeyError missing_key_message))
       \<and> snd (snd (commit e self w)) = w"
proof -
  have g: "Archiver_getJWT e w = (Inl (KeyError missing_key_message), w)"
    using assms by (simp add: Archiver_getJWT_unfold)
  show ?thesis
  proof (cases "py_major e = 2 \<or> py_major e = 3")
    case True
    then have "commit e self w = (Inl (KeyError missing_key_message), self, w)"
      using g by (rule commit_token_failure)
    with g show ?thesis by simp
  next
    case False
    then have "commit e self w = (Inl (UnboundLocalError ''token''), self, w)"
      by (simp add: commit_def)
    with g False show ?thesis by simp
  qed
qed

theorem missing_key_fails_before_any_request_witness:
  "environ example_env_no_key ''MORPH_DT_API_KEY'' = None
   \<and> py_major example_env_no_key = 3
   \<and> fst (commit example_env_no_key example_archiver example_world) = Inl (KeyError missing_key_message)
   \<and> snd (snd (commit example_env_no_key example_archiver example_world)) = example_world"
proof -
  have h: "environ example_env_no_key ''MORPH_DT_API_KEY'' = None"
    by (simp add: example_env_no_key_def)
  have v: "py_major example_env_no_key = 3"
    by (simp add: example_env_no_key_def example_env_def)
  from missing_key_fails_before_any_request [OF h, of example_world example_archiver] h v
  show ?thesis by simp
qed

text \<open>
  C4.  When the key is set, the token and the public key have been fetched, and
  \<open>jwt.decode\<close> raises on them, \<open>commit\<close> raises that same error.  The requests it has
  sent are the token request and the public-key request, followed by the log line when the
  error is a \<open>DecodeError\<close>; no request to the session endpoint is among them.
\<close>

theorem unverified_token_never_reported:
  assumes "py_major e = 2 \<or> py_major e = 3"
    and "environ e ''MORPH_DT_API_KEY'' = Some api_key"
    and "network e (token_request api_key) = Inr r1"
    and "network e publickey_request = Inr r2"
    and "jwt_decode e (resp_content r1) (resp_content r2) = Some err"
  shows "fst (commit e self w) = Inl err
       \<and> trace (snd (snd (commit e self w))) =
           trace w @ [Request (token_request api_key), Request publickey_request]
                   @ verification_log err
       \<and> (\<forall>ev \<in> set (drop (length (trace w)) (trace (snd (snd (commit e self w))))).
             \<forall>req. ev = Request req \<longrightarrow> req_url req \<noteq> session_url)"
proof -
  let ?w1 = "w\<lparr>trace := trace w @ [Request (token_request api_key), Request publickey_request]
                                  @ verification_log err\<rparr>"
  have g: "Archiver_getJWT e w = (Inl err, ?w1)"
    using assms(2-5) by (simp add: Archiver_getJWT_unfold)
  have c: "commit e self w = (Inl err, self, ?w1)"
    using assms(1) g by (rule commit_token_failure)
  have urls: "jwt_url \<noteq> session_url" "publickey_url \<noteq> session_url"
    by (simp_all add: jwt_url_def publickey_url_def session_url_def)
  have "\<forall>ev \<in> set ([Request (token_request api_key), Request publickey_request]
                       @ verification_log err).
          \<forall>req. ev = Request req \<longrightarrow> req_url req \<noteq> session_url"
    using urls
    by (cases err) (auto simp: token_request_def publickey_request_def verification_log_def)
  then show ?thesis
    by (simp add: c)
qed

theorem unverified_token_never_reported_witness:
  "(py_major example_env_forged = 2 \<or> py_major example_env_forged = 3)
   \<and> environ example_env_forged ''MORPH_DT_API_KEY'' = Some ''secret''
   \<and> network example_env_forged (token_request ''secret'') = Inr example_response
   \<and> network example_env_forged publickey_request = Inr example_response
   \<and> jwt_decode example_env_forged (resp_content example_response) (resp_content example_response)
       = Some (DecodeError ''Signature verification failed'')
   \<and> fst (commit example_env_forged example_archiver example_world)
       = Inl (DecodeError ''Signature verification failed'')
   \<and> trace (snd (snd (commit example_env_forged example_archiver example_world))) =
       trace example_world @ [Request (token_request ''secret''), Request publickey_request]
         @ verification_log (DecodeError ''Signature verification failed'')"
proof -
  have h1: "py_major example_env_forged = 2 \<or> py_major example_env_forged = 3"
    by (simp add: example_env_forged_def example_env_def)
  have h2: "environ example_env_forged ''MORPH_DT_API_KEY'' = Some ''secret''"
    by (simp add: example_env_forged_def example_env_def)
  have h3: "network example_env_forged (token_request ''secret'') = Inr example_response"
    by (simp add: example_env_forged_def example_env_def)
  have h4: "network example_env_forged publickey_request = Inr example_response"
    by (simp add: example_env_forged_def example_env_def)
  have h5: "jwt_decode example_env_forged (resp_content example_response) (resp_content example_response)
              = Some (DecodeError ''Signature verification failed'')"
    by (simp add: example_env_forged_def)
  from unverified_token_never_reported [OF h1 h2 h3 h4 h5, of example_archiver example_world]
    h1 h2 h3 h4 h5
  show ?thesis by blast
qed

text \<open>
  C6.  \<open>commit\<close> raises for a response of the report endpoint only through
  \<open>raise_for_status\<close>, that is for a status from 400 to 599.  With a verified token and a
  report endpoint that answers 300, the report request is sent and \<open>commit\<close> returns
  normally.
\<close>

theorem commit_returns_normally_on_status_300:
  "fst (commit example_env_300 example_archiver example_world) = Inr ()
   \<and> Request (report_request ''hello'')
       \<in> set (trace (snd (snd (commit example_env_300 example_archiver example_world))))"
proof -
  have v: "py_major example_env_300 = 2 \<or> py_major example_env_300 = 3"
    by (simp add: example_env_300_def example_env_def)
  have urls: "jwt_url \<noteq> session_url" "publickey_url \<noteq> session_url"
    by (simp_all add: jwt_url_def publickey_url_def session_url_def)
  let ?w1 = "example_world\<lparr>trace := trace example_world
                @ [Request (token_request ''secret''), Request publickey_request]\<rparr>"
  have g: "Archiver_getJWT example_env_300 example_world = (Inr (resp_content example_response), ?w1)"
    using urls
    by (simp add: Archiver_getJWT_unfold example_env_300_def example_env_def
          token_request_def publickey_request_def)
  have "text_of_bytes [0x68, 0x65, 0x6C, 0x6C, 0x6F] = ''hello''"
    by code_simp
  then have b: "bearer_text (py_major example_env_300) (resp_content example_response) = Inr ''hello''"
    by (simp add: bearer_text_def example_env_300_def example_env_def example_response_def
          str_utf8_def)
  have c: "commit example_env_300 example_archiver example_world
             = report_outcome example_env_300 example_archiver ''hello'' ?w1"
    using v g b by (rule commit_after_token)
  show ?thesis
    unfolding c
    by (simp add: report_outcome_def example_env_300_def example_env_def report_request_def
          example_response_def)
qed

end
